theory Spec2Isabelle
  imports Complex_Main "HOL-Library.Sublist"
begin

section \<open>The LLM gateway of \<^verbatim>\<open>utils/call_llm.py\<close>\<close>

text \<open>
  The module has two entry points, \<^verbatim>\<open>call_llm\<close> (one prompt) and
  \<^verbatim>\<open>call_llm_with_history\<close> (a list of role/content dicts). Both read a credential
  from the process environment, build one request for the OpenAI or the Anthropic client,
  send it, and take the text of the first completion. Everything they do besides returning
  is written out here: the environment reads, the log lines and the request handed to the
  client form a list of events, an exception is the \<open>Inl\<close> of a sum, and the message dicts
  live in a store, because the Anthropic branch appends the caller's dicts to its own list
  and then assigns to the \<^verbatim>\<open>content\<close> key of the first of them.
\<close>

subsection \<open>Python values\<close>

text \<open>
  A Python \<^verbatim>\<open>str\<close> is a \<open>string\<close>; one \<open>char\<close> stands for one element of the Python
  string. The functions only concatenate strings, compare them and take their length.
  \<^verbatim>\<open>None\<close> is the \<open>None\<close> of an option type. The float given as temperature is never
  computed with, only handed on: it is a \<open>real\<close>, and the literal \<^verbatim>\<open>0.7\<close> is \<open>7 / 10\<close>.
\<close>

text \<open>
  An exception: the name of its class and \<^verbatim>\<open>str(e)\<close>. \<open>Exn\<close> is an exception whose
  class derives from \<^verbatim>\<open>Exception\<close>, which is what \<^verbatim>\<open>except Exception\<close> catches;
  \<open>BaseExn\<close> is one whose class derives from \<^verbatim>\<open>BaseException\<close> only
  (\<^verbatim>\<open>KeyboardInterrupt\<close>, \<^verbatim>\<open>SystemExit\<close>, \<^verbatim>\<open>GeneratorExit\<close>), which that clause lets
  through.
\<close>

datatype exn =
  is_Exception: Exn (exn_class: string) (exn_str: string)
  | BaseExn (exn_class: string) (exn_str: string)

abbreviation ValueError :: "string \<Rightarrow> exn" where
  "ValueError m \<equiv> Exn ''ValueError'' m"

abbreviation IndexError :: "string \<Rightarrow> exn" where
  "IndexError m \<equiv> Exn ''IndexError'' m"

abbreviation TypeError :: "string \<Rightarrow> exn" where
  "TypeError m \<equiv> Exn ''TypeError'' m"

text \<open>
  \<^verbatim>\<open>str.lower()\<close>. On the letters A to Z it adds 32 to the code; every other \<open>char\<close> is
  left as it is. (No character outside ASCII lowers to one of the letters of
  \<^verbatim>\<open>openai\<close> or \<^verbatim>\<open>anthropic\<close>, so the comparison of the lowered provider name with
  these two literals is the one Python makes.)
\<close>

definition lower_char :: "char \<Rightarrow> char" where
  "lower_char c =
     (let n = (of_char c :: nat) in if 65 \<le> n \<and> n \<le> 90 then char_of (n + 32) else c)"

definition lower :: "string \<Rightarrow> string" where
  "lower s = map lower_char s"

text \<open>The decimal numeral that an f-string prints for \<^verbatim>\<open>len(...)\<close>.\<close>

definition digit_char :: "nat \<Rightarrow> char" where
  "digit_char d = char_of (48 + d)"

fun str_nat :: "nat \<Rightarrow> string" where
  "str_nat n = (if n < 10 then [digit_char n] else str_nat (n div 10) @ [digit_char (n mod 10)])"

declare str_nat.simps [simp del]

text \<open>
  \<^verbatim>\<open>x or d\<close> for an optional string and for an optional integer: \<^verbatim>\<open>None\<close>, the empty
  string and \<^verbatim>\<open>0\<close> are falsy.
\<close>

definition or_str :: "string option \<Rightarrow> string \<Rightarrow> string" where
  "or_str x d = (case x of None \<Rightarrow> d | Some s \<Rightarrow> if s = [] then d else s)"

definition or_int :: "int option \<Rightarrow> int \<Rightarrow> int" where
  "or_int x d = (case x of None \<Rightarrow> d | Some n \<Rightarrow> if n = 0 then d else n)"

text \<open>The two newlines \<^verbatim>\<open>"\n\n"\<close>.\<close>

definition nl2 :: string where
  "nl2 = [CHR 0x0A, CHR 0x0A]"

subsection \<open>Messages, the store, the environment\<close>

text \<open>
  A message is a dict with the keys \<^verbatim>\<open>role\<close> and \<^verbatim>\<open>content\<close> (the documented shape of
  the elements of \<^verbatim>\<open>messages\<close>). The list \<^verbatim>\<open>messages\<close> holds references to dict objects;
  \<open>heap\<close> maps a reference to the dict it denotes. The same reference may occur twice in
  a list.
\<close>

record msg =
  role :: string
  content :: string

type_synonym ref = nat

type_synonym heap = "ref \<Rightarrow> msg"

text \<open>\<^verbatim>\<open>os.getenv\<close>: the value of a variable, or \<^verbatim>\<open>None\<close>.\<close>

type_synonym env = "string \<Rightarrow> string option"

text \<open>
  \<^verbatim>\<open>**kwargs\<close> of \<^verbatim>\<open>call_llm_with_history\<close>: of each of the three keys the function
  reads, \<open>None\<close> when the key was not passed, \<open>Some v\<close> when it was passed with value
  \<open>v\<close>, which may itself be \<^verbatim>\<open>None\<close>. \<open>kwargs_get\<close> is \<^verbatim>\<open>kwargs.get(key, default)\<close>;
  \<^verbatim>\<open>kwargs.get(key)\<close> is the same with default \<^verbatim>\<open>None\<close>.
\<close>

record kwargs =
  kw_model :: "string option option"
  kw_temperature :: "real option option"
  kw_max_tokens :: "int option option"

definition kwargs_get :: "'a option \<Rightarrow> 'a \<Rightarrow> 'a" where
  "kwargs_get entry d = (case entry of None \<Rightarrow> d | Some v \<Rightarrow> v)"

subsection \<open>The provider clients\<close>

text \<open>
  A request is what \<^verbatim>\<open>client.chat.completions.create\<close> (OpenAI) or
  \<^verbatim>\<open>client.messages.create\<close> (Anthropic) is called with, together with the key the client
  was built from. The messages are recorded by value, as they are when the call is made.
\<close>

datatype client = OpenAI | Anthropic

record request =
  req_client :: client
  req_api_key :: string
  req_model :: "string option"
  req_messages :: "msg list"
  req_temperature :: "real option"
  req_max_tokens :: "int option"

text \<open>
  The clients are parameters of the model. A call either raises (\<open>Inl\<close>) or returns a
  response: for OpenAI the list \<^verbatim>\<open>response.choices\<close>, each choice given by its
  \<^verbatim>\<open>message.content\<close>, which can be \<^verbatim>\<open>None\<close>; for Anthropic the list
  \<^verbatim>\<open>response.content\<close>, each block given by its \<^verbatim>\<open>text\<close>.
\<close>

record backend =
  chat_completions_create :: "request \<Rightarrow> exn + string option list"
  messages_create :: "request \<Rightarrow> exn + string list"

text \<open>What a function does besides returning, in the order in which it does it.\<close>

datatype event = LogInfo string | LogError string | GetEnv string | Create request

text \<open>The requests sent to a provider, in order.\<close>

fun calls :: "event list \<Rightarrow> request list" where
  "calls [] = []"
| "calls (Create r # evs) = r # calls evs"
| "calls (_ # evs) = calls evs"

text \<open>The environment variables read, in order.\<close>

fun lookups :: "event list \<Rightarrow> string list" where
  "lookups [] = []"
| "lookups (GetEnv v # evs) = v # lookups evs"
| "lookups (_ # evs) = lookups evs"

text \<open>The error lines logged, in order.\<close>

fun errors :: "event list \<Rightarrow> string list" where
  "errors [] = []"
| "errors (LogError l # evs) = l # errors evs"
| "errors (_ # evs) = errors evs"

text \<open>The fault, if any, with which the client of a request answers it.\<close>

definition fault :: "backend \<Rightarrow> request \<Rightarrow> exn option" where
  "fault b r =
     (case req_client r of
        OpenAI \<Rightarrow> (case chat_completions_create b r of Inl e \<Rightarrow> Some e | Inr _ \<Rightarrow> None)
      | Anthropic \<Rightarrow> (case messages_create b r of Inl e \<Rightarrow> Some e | Inr _ \<Rightarrow> None))"

subsection \<open>\<^verbatim>\<open>call_llm\<close>\<close>

text \<open>
  The body of the \<^verbatim>\<open>try\<close> block (lines 38 to 74). An omitted argument has its default:
  \<^verbatim>\<open>provider="openai"\<close>, \<^verbatim>\<open>model=None\<close>, \<^verbatim>\<open>temperature=0.7\<close>, \<^verbatim>\<open>max_tokens=None\<close>.
\<close>

definition call_llm_try ::
  "env \<Rightarrow> backend \<Rightarrow> string \<Rightarrow> string \<Rightarrow> string option \<Rightarrow> real \<Rightarrow> int option
    \<Rightarrow> event list \<times> (exn + string)" where
  "call_llm_try env b prompt provider model temperature max_tokens =
     (if lower provider = ''openai'' then
        (case env ''OPENAI_API_KEY'' of
           None \<Rightarrow>
             ([GetEnv ''OPENAI_API_KEY''],
              Inl (ValueError ''OPENAI_API_KEY not found in environment variables''))
         | Some api_key \<Rightarrow>
             if api_key = [] \<or> api_key = ''YOUR_API_KEY_HERE'' then
               ([GetEnv ''OPENAI_API_KEY''],
                Inl (ValueError ''OPENAI_API_KEY not found in environment variables''))
             else
               let req = \<lparr>req_client = OpenAI, req_api_key = api_key,
                          req_model = Some (or_str model ''gpt-4o''),
                          req_messages = [\<lparr>role = ''user'', content = prompt\<rparr>],
                          req_temperature = Some temperature,
                          req_max_tokens = max_tokens\<rparr>
               in (case chat_completions_create b req of
                     Inl e \<Rightarrow> ([GetEnv ''OPENAI_API_KEY'', Create req], Inl e)
                   | Inr [] \<Rightarrow>
                       ([GetEnv ''OPENAI_API_KEY'', Create req],
                        Inl (IndexError ''list index out of range''))
                   | Inr (None # _) \<Rightarrow>
                       ([GetEnv ''OPENAI_API_KEY'', Create req],
                        Inl (TypeError ''object of type 'NoneType' has no len()''))
                   | Inr (Some result # _) \<Rightarrow>
                       ([GetEnv ''OPENAI_API_KEY'', Create req,
                         LogInfo (''Received response of length: '' @ str_nat (length result))],
                        Inr result)))
      else if lower provider = ''anthropic'' then
        (case env ''ANTHROPIC_API_KEY'' of
           None \<Rightarrow>
             ([GetEnv ''ANTHROPIC_API_KEY''],
              Inl (ValueError ''ANTHROPIC_API_KEY not found in environment variables''))
         | Some api_key \<Rightarrow>
             if api_key = [] then
               ([GetEnv ''ANTHROPIC_API_KEY''],
                Inl (ValueError ''ANTHROPIC_API_KEY not found in environment variables''))
             else
               let req = \<lparr>req_client = Anthropic, req_api_key = api_key,
                          req_model = Some (or_str model ''claude-3-opus-20240229''),
                          req_messages = [\<lparr>role = ''user'', content = prompt\<rparr>],
                          req_temperature = Some temperature,
                          req_max_tokens = Some (or_int max_tokens 4096)\<rparr>
               in (case messages_create b req of
                     Inl e \<Rightarrow> ([GetEnv ''ANTHROPIC_API_KEY'', Create req], Inl e)
                   | Inr [] \<Rightarrow>
                       ([GetEnv ''ANTHROPIC_API_KEY'', Create req],
                        Inl (IndexError ''list index out of range''))
                   | Inr (result # _) \<Rightarrow>
                       ([GetEnv ''ANTHROPIC_API_KEY'', Create req,
                         LogInfo (''Received response of length: '' @ str_nat (length result))],
                        Inr result)))
      else ([], Inl (ValueError (''Unsupported provider: '' @ provider))))"

text \<open>
  The whole function: the first log line, the \<^verbatim>\<open>try\<close> block, and the handler of line 76,
  \<^verbatim>\<open>except Exception as e\<close>, which logs \<^verbatim>\<open>str(e)\<close> and re-raises the exception it
  caught. An exception that is not an \<^verbatim>\<open>Exception\<close> passes the handler by: it leaves the
  function as it is, and no error line is logged.
\<close>

definition call_llm ::
  "env \<Rightarrow> backend \<Rightarrow> string \<Rightarrow> string \<Rightarrow> string option \<Rightarrow> real \<Rightarrow> int option
    \<Rightarrow> event list \<times> (exn + string)" where
  "call_llm env b prompt provider model temperature max_tokens =
     (let start = LogInfo (''Calling '' @ provider @ '' LLM with prompt length: ''
                            @ str_nat (length prompt))
      in case call_llm_try env b prompt provider model temperature max_tokens of
           (evs, Inl e) \<Rightarrow>
             if is_Exception e then
               (start # evs
                  @ [LogError (''Error calling '' @ provider @ '' LLM: '' @ exn_str e)],
                Inl e)
             else (start # evs, Inl e)
         | (evs, Inr result) \<Rightarrow> (start # evs, Inr result))"

subsection \<open>\<^verbatim>\<open>call_llm_with_history\<close>\<close>

text \<open>
  The loop of lines 137 to 144 over the remaining messages. \<open>acc\<close> is the list
  \<^verbatim>\<open>anthropic_messages\<close> built so far. A message whose role is \<^verbatim>\<open>system\<close> is never
  appended; when the list is not empty and its first dict has the role \<^verbatim>\<open>user\<close>, that
  dict's \<^verbatim>\<open>content\<close> is overwritten in the store, and otherwise nothing happens. Any other
  message is appended, as a reference to the caller's dict.
\<close>

fun anthropic_messages :: "heap \<Rightarrow> ref list \<Rightarrow> ref list \<Rightarrow> heap \<times> ref list" where
  "anthropic_messages h acc [] = (h, acc)"
| "anthropic_messages h acc (m # ms) =
     (if role (h m) = ''system'' then
        (case acc of
           [] \<Rightarrow> anthropic_messages h acc ms
         | a # _ \<Rightarrow>
             if role (h a) = ''user'' then
               anthropic_messages
                 (h(a := (h a)\<lparr>content := content (h m) @ nl2 @ content (h a)\<rparr>)) acc ms
             else anthropic_messages h acc ms)
      else anthropic_messages h (acc @ [m]) ms)"

text \<open>
  The body of the \<^verbatim>\<open>try\<close> block (lines 112 to 152). There is no \<^verbatim>\<open>else\<close> branch: for any
  other provider the block ends, and the function returns \<^verbatim>\<open>None\<close>.
\<close>

definition call_llm_with_history_try ::
  "env \<Rightarrow> backend \<Rightarrow> heap \<Rightarrow> ref list \<Rightarrow> string \<Rightarrow> kwargs
    \<Rightarrow> heap \<times> event list \<times> (exn + string option)" where
  "call_llm_with_history_try env b h messages provider kw =
     (if lower provider = ''openai'' then
        (case env ''OPENAI_API_KEY'' of
           None \<Rightarrow>
             (h, [GetEnv ''OPENAI_API_KEY''],
              Inl (ValueError ''OPENAI_API_KEY not found in environment variables''))
         | Some api_key \<Rightarrow>
             if api_key = [] then
               (h, [GetEnv ''OPENAI_API_KEY''],
                Inl (ValueError ''OPENAI_API_KEY not found in environment variables''))
             else
               let req = \<lparr>req_client = OpenAI, req_api_key = api_key,
                          req_model = kwargs_get (kw_model kw) (Some ''gpt-4o''),
                          req_messages = map h messages,
                          req_temperature = kwargs_get (kw_temperature kw) (Some (7 / 10)),
                          req_max_tokens = kwargs_get (kw_max_tokens kw) None\<rparr>
               in (case chat_completions_create b req of
                     Inl e \<Rightarrow> (h, [GetEnv ''OPENAI_API_KEY'', Create req], Inl e)
                   | Inr [] \<Rightarrow>
                       (h, [GetEnv ''OPENAI_API_KEY'', Create req],
                        Inl (IndexError ''list index out of range''))
                   | Inr (result # _) \<Rightarrow>
                       (h, [GetEnv ''OPENAI_API_KEY'', Create req], Inr result)))
      else if lower provider = ''anthropic'' then
        (case env ''ANTHROPIC_API_KEY'' of
           None \<Rightarrow>
             (h, [GetEnv ''ANTHROPIC_API_KEY''],
              Inl (ValueError ''ANTHROPIC_API_KEY not found in environment variables''))
         | Some api_key \<Rightarrow>
             if api_key = [] then
               (h, [GetEnv ''ANTHROPIC_API_KEY''],
                Inl (ValueError ''ANTHROPIC_API_KEY not found in environment variables''))
             else
               let (h', msgs) = anthropic_messages h [] messages;
                   req = \<lparr>req_client = Anthropic, req_api_key = api_key,
                          req_model = kwargs_get (kw_model kw) (Some ''claude-3-opus-20240229''),
                          req_messages = map h' msgs,
                          req_temperature = kwargs_get (kw_temperature kw) (Some (7 / 10)),
                          req_max_tokens = kwargs_get (kw_max_tokens kw) (Some 4096)\<rparr>
               in (case messages_create b req of
                     Inl e \<Rightarrow> (h', [GetEnv ''ANTHROPIC_API_KEY'', Create req], Inl e)
                   | Inr [] \<Rightarrow>
                       (h', [GetEnv ''ANTHROPIC_API_KEY'', Create req],
                        Inl (IndexError ''list index out of range''))
                   | Inr (result # _) \<Rightarrow>
                       (h', [GetEnv ''ANTHROPIC_API_KEY'', Create req], Inr (Some result))))
      else (h, [], Inr None))"

text \<open>
  The whole function: the check of line 106, which raises outside the \<^verbatim>\<open>try\<close> block and
  before anything else is done, the log line, the \<^verbatim>\<open>try\<close> block, and the handler of
  line 154, \<^verbatim>\<open>except Exception as e\<close>, which logs \<^verbatim>\<open>str(e)\<close> and re-raises the
  exception it caught; an exception that is not an \<^verbatim>\<open>Exception\<close> passes it by with no
  error line. The store is returned as the function leaves it.
\<close>

definition call_llm_with_history ::
  "env \<Rightarrow> backend \<Rightarrow> heap \<Rightarrow> ref list \<Rightarrow> string \<Rightarrow> kwargs
    \<Rightarrow> heap \<times> event list \<times> (exn + string option)" where
  "call_llm_with_history env b h messages provider kw =
     (if messages = [] then (h, [], Inl (ValueError ''Messages list cannot be empty''))
      else
        let start = LogInfo (''Calling '' @ provider @ '' with ''
                              @ str_nat (length messages) @ '' messages'')
        in case call_llm_with_history_try env b h messages provider kw of
             (h', evs, Inl e) \<Rightarrow>
               if is_Exception e then
                 (h', start # evs
                      @ [LogError (''Error calling '' @ provider @ '' with history: ''
                                    @ exn_str e)],
                  Inl e)
               else (h', start # evs, Inl e)
           | (h', evs, Inr result) \<Rightarrow> (h', start # evs, Inr result))"

text \<open>The translated sequence alone: the messages the Anthropic client is called with.\<close>

definition anthropic_translation :: "heap \<Rightarrow> ref list \<Rightarrow> msg list" where
  "anthropic_translation h messages =
     (case anthropic_messages h [] messages of (h', msgs) \<Rightarrow> map h' msgs)"

subsection \<open>Notions used to state the properties\<close>

text \<open>
  The contents of the messages of a list whose role is \<^verbatim>\<open>system\<close>, in the order of the
  list, and the text that prepending each of them in turn, followed by two newlines, puts
  in front of a content: the last one prepended comes first.
\<close>

definition system_contents :: "heap \<Rightarrow> ref list \<Rightarrow> string list" where
  "system_contents h ms = map (\<lambda>m. content (h m)) (filter (\<lambda>m. role (h m) = ''system'') ms)"

definition folded_prefix :: "string list \<Rightarrow> string" where
  "folded_prefix cs = concat (map (\<lambda>c. c @ nl2) (rev cs))"

subsection \<open>Inputs of the examples\<close>

text \<open>
  The conversation of the module's own test block (lines 180 to 185), a conversation whose
  system messages come after the first user message, an environment holding both keys, one
  holding the placeholder of line 40 as the OpenAI key, a call without keyword arguments,
  clients that raise a connection error on every call, clients in which every call is
  interrupted from the keyboard, and clients that answer every call with the text \<^verbatim>\<open>T\<close>.
\<close>

definition main_messages :: heap where
  "main_messages =
     (\<lambda>_. \<lparr>role = [], content = []\<rparr>)
       (0 := \<lparr>role = ''system'', content = ''You are a helpful assistant.''\<rparr>,
        1 := \<lparr>role = ''user'', content = ''What is Python?''\<rparr>,
        2 := \<lparr>role = ''assistant'', content = ''Python is a high-level programming language.''\<rparr>,
        3 := \<lparr>role = ''user'', content = ''What are its main uses?''\<rparr>)"

definition late_system_messages :: heap where
  "late_system_messages =
     (\<lambda>_. \<lparr>role = [], content = []\<rparr>)
       (0 := \<lparr>role = ''user'', content = ''U''\<rparr>,
        1 := \<lparr>role = ''system'', content = ''A''\<rparr>,
        2 := \<lparr>role = ''assistant'', content = ''R''\<rparr>,
        3 := \<lparr>role = ''system'', content = ''B''\<rparr>)"

definition keys_env :: env where
  "keys_env = (\<lambda>_. None)(''OPENAI_API_KEY'' := Some ''sk-1'', ''ANTHROPIC_API_KEY'' := Some ''sk-2'')"

definition placeholder_env :: env where
  "placeholder_env = (\<lambda>_. None)(''OPENAI_API_KEY'' := Some ''YOUR_API_KEY_HERE'')"

definition no_kwargs :: kwargs where
  "no_kwargs = \<lparr>kw_model = None, kw_temperature = None, kw_max_tokens = None\<rparr>"

definition connection_error :: exn where
  "connection_error = Exn ''APIConnectionError'' ''Connection error.''"

definition down_backend :: backend where
  "down_backend = \<lparr>chat_completions_create = (\<lambda>_. Inl connection_error),
                    messages_create = (\<lambda>_. Inl connection_error)\<rparr>"

definition keyboard_interrupt :: exn where
  "keyboard_interrupt = BaseExn ''KeyboardInterrupt'' []"

definition interrupted_backend :: backend where
  "interrupted_backend = \<lparr>chat_completions_create = (\<lambda>_. Inl keyboard_interrupt),
                           messages_create = (\<lambda>_. Inl keyboard_interrupt)\<rparr>"

definition echo_backend :: backend where
  "echo_backend = \<lparr>chat_completions_create = (\<lambda>_. Inr [Some ''T'']),
                    messages_create = (\<lambda>_. Inr [''T''])\<rparr>"

section \<open>Properties\<close>

subsection \<open>The loop that folds system messages\<close>

lemma anthropic_messages_role:
  "anthropic_messages h acc ms = (h', out) \<Longrightarrow> role (h' r) = role (h r)"
proof (induction ms arbitrary: h acc)
  case Nil
  then show ?case by simp
next
  case (Cons m ms)
  show ?case
  proof (cases "role (h m) = ''system''")
    case True
    note sys = True
    show ?thesis
    proof (cases acc)
      case Nil
      with Cons sys show ?thesis by simp
    next
      case (Cons a as)
      show ?thesis
      proof (cases "role (h a) = ''user''")
        case True
        let ?h1 = "h(a := (h a)\<lparr>content := content (h m) @ nl2 @ content (h a)\<rparr>)"
        from Cons.prems sys Cons True have "anthropic_messages ?h1 acc ms = (h', out)" by simp
        then have "role (h' r) = role (?h1 r)" by (rule Cons.IH)
        then show ?thesis by simp
      next
        case False
        with Cons.prems Cons.IH sys Cons show ?thesis by simp
      qed
    qed
  next
    case False
    with Cons show ?thesis by simp
  qed
qed

lemma anthropic_messages_out:
  "snd (anthropic_messages h acc ms) = acc @ filter (\<lambda>m. role (h m) \<noteq> ''system'') ms"
proof (induction ms arbitrary: h acc)
  case Nil
  then show ?case by simp
next
  case (Cons m ms)
  then show ?case by (auto split: list.splits intro!: filter_cong)
qed

lemma system_contents_upd:
  "role (h a) \<noteq> ''system'' \<Longrightarrow>
   system_contents (h(a := (h a)\<lparr>content := c\<rparr>)) ms = system_contents h ms"
  by (induction ms) (auto simp: system_contents_def)

lemma filter_not_system_upd:
  "filter (\<lambda>m. role ((h(a := (h a)\<lparr>content := c\<rparr>)) m) \<noteq> ''system'') ms =
   filter (\<lambda>m. role (h m) \<noteq> ''system'') ms"
  by (rule filter_cong) auto

lemma folded_prefix_Cons: "folded_prefix (c # cs) = folded_prefix cs @ c @ nl2"
  by (simp add: folded_prefix_def)

lemma anthropic_messages_user_head:
  "role (h a) = ''user'' \<Longrightarrow>
   anthropic_messages h (a # as) ms =
     (h(a := (h a)\<lparr>content := folded_prefix (system_contents h ms) @ content (h a)\<rparr>),
      (a # as) @ filter (\<lambda>m. role (h m) \<noteq> ''system'') ms)"
proof (induction ms arbitrary: h as)
  case Nil
  then show ?case by (simp add: system_contents_def folded_prefix_def)
next
  case (Cons m ms)
  show ?case
  proof (cases "role (h m) = ''system''")
    case True
    let ?h1 = "h(a := (h a)\<lparr>content := content (h m) @ nl2 @ content (h a)\<rparr>)"
    have user1: "role (?h1 a) = ''user''" using Cons.prems by simp
    have not_sys: "role (h a) \<noteq> ''system''" using Cons.prems by simp
    have "anthropic_messages h (a # as) (m # ms) = anthropic_messages ?h1 (a # as) ms"
      using True Cons.prems by simp
    also have "\<dots> =
      (?h1(a := (?h1 a)\<lparr>content := folded_prefix (system_contents ?h1 ms) @ content (?h1 a)\<rparr>),
       (a # as) @ filter (\<lambda>m. role (?h1 m) \<noteq> ''system'') ms)"
      using user1 by (rule Cons.IH)
    finally have step: "anthropic_messages h (a # as) (m # ms) =
      (?h1(a := (?h1 a)\<lparr>content := folded_prefix (system_contents ?h1 ms) @ content (?h1 a)\<rparr>),
       (a # as) @ filter (\<lambda>m. role (?h1 m) \<noteq> ''system'') ms)" .
    have kept: "filter (\<lambda>m. role (?h1 m) \<noteq> ''system'') ms =
                filter (\<lambda>m. role (h m) \<noteq> ''system'') (m # ms)"
      using True filter_not_system_upd [of h a _ ms] by simp
    have sc: "system_contents ?h1 ms = system_contents h ms"
      using not_sys by (rule system_contents_upd)
    have fp: "folded_prefix (system_contents h (m # ms)) =
              folded_prefix (system_contents h ms) @ content (h m) @ nl2"
      using True by (simp add: system_contents_def folded_prefix_Cons)
    have heap: "?h1(a := (?h1 a)\<lparr>content := folded_prefix (system_contents h ms) @ content (?h1 a)\<rparr>) =
                h(a := (h a)\<lparr>content := folded_prefix (system_contents h (m # ms)) @ content (h a)\<rparr>)"
      by (simp add: fp)
    show ?thesis unfolding step kept sc heap ..
  next
    case False
    have "anthropic_messages h (a # as) (m # ms) = anthropic_messages h (a # (as @ [m])) ms"
      using False by simp
    also have "\<dots> =
      (h(a := (h a)\<lparr>content := folded_prefix (system_contents h ms) @ content (h a)\<rparr>),
       (a # (as @ [m])) @ filter (\<lambda>m. role (h m) \<noteq> ''system'') ms)"
      using Cons.prems by (rule Cons.IH)
    finally have step: "anthropic_messages h (a # as) (m # ms) =
      (h(a := (h a)\<lparr>content := folded_prefix (system_contents h ms) @ content (h a)\<rparr>),
       (a # (as @ [m])) @ filter (\<lambda>m. role (h m) \<noteq> ''system'') ms)" .
    have sc: "system_contents h (m # ms) = system_contents h ms"
      using False by (simp add: system_contents_def)
    have kept: "(a # (as @ [m])) @ filter (\<lambda>m. role (h m) \<noteq> ''system'') ms =
                (a # as) @ filter (\<lambda>m. role (h m) \<noteq> ''system'') (m # ms)"
      using False by simp
    show ?thesis unfolding step sc kept ..
  qed
qed

lemma anthropic_messages_no_user:
  "\<forall>m \<in> set pre. role (h m) \<noteq> ''user'' \<Longrightarrow> \<forall>a \<in> set acc. role (h a) \<noteq> ''user'' \<Longrightarrow>
   anthropic_messages h acc (pre @ rest) =
     anthropic_messages h (acc @ filter (\<lambda>m. role (h m) \<noteq> ''system'') pre) rest"
proof (induction pre arbitrary: acc)
  case Nil
  then show ?case by simp
next
  case (Cons m pre)
  show ?case
  proof (cases "role (h m) = ''system''")
    case True
    have "anthropic_messages h acc ((m # pre) @ rest) = anthropic_messages h acc (pre @ rest)"
      using True Cons.prems(2) by (cases acc) simp_all
    also have "\<dots> = anthropic_messages h (acc @ filter (\<lambda>m. role (h m) \<noteq> ''system'') pre) rest"
      using Cons.prems by (intro Cons.IH) simp_all
    finally show ?thesis using True by simp
  next
    case False
    have "anthropic_messages h acc ((m # pre) @ rest) = anthropic_messages h (acc @ [m]) (pre @ rest)"
      using False by simp
    also have "\<dots> = anthropic_messages h ((acc @ [m]) @ filter (\<lambda>m. role (h m) \<noteq> ''system'') pre) rest"
      using Cons.prems by (intro Cons.IH) simp_all
    finally show ?thesis using False by simp
  qed
qed

lemma anthropic_messages_skip_system:
  "role (h s) = ''system'' \<Longrightarrow> \<forall>a \<in> set acc. role (h a) \<noteq> ''user'' \<Longrightarrow>
   anthropic_messages h acc (s # post) = anthropic_messages h acc post"
  by (cases acc) simp_all

lemma anthropic_translation_no_system:
  "m \<in> set (anthropic_translation h ms) \<Longrightarrow> role m \<noteq> ''system''"
proof -
  assume m: "m \<in> set (anthropic_translation h ms)"
  obtain h' out where res: "anthropic_messages h [] ms = (h', out)"
    by (cases "anthropic_messages h [] ms")
  have out: "out = filter (\<lambda>m. role (h m) \<noteq> ''system'') ms"
    using anthropic_messages_out [of h "[]" ms] res by simp
  from m res obtain r where r: "r \<in> set out" and mr: "m = h' r"
    by (auto simp: anthropic_translation_def)
  have "role (h' r) = role (h r)" using res by (rule anthropic_messages_role)
  with r out mr show ?thesis by simp
qed

subsection \<open>The requests that are sent\<close>

lemma calls_append: "calls (xs @ ys) = calls xs @ calls ys"
  by (induction xs rule: calls.induct) simp_all

lemma lookups_append: "lookups (xs @ ys) = lookups xs @ lookups ys"
  by (induction xs rule: lookups.induct) simp_all

lemma call_llm_calls:
  "calls (fst (call_llm env b prompt provider model temperature max_tokens)) =
   calls (fst (call_llm_try env b prompt provider model temperature max_tokens))"
  by (cases "call_llm_try env b prompt provider model temperature max_tokens")
     (simp add: call_llm_def Let_def calls_append split: sum.splits)

lemma call_llm_with_history_calls:
  "messages \<noteq> [] \<Longrightarrow>
   calls (fst (snd (call_llm_with_history env b h messages provider kw))) =
   calls (fst (snd (call_llm_with_history_try env b h messages provider kw)))"
  by (cases "call_llm_with_history_try env b h messages provider kw")
     (simp add: call_llm_with_history_def Let_def calls_append split: sum.splits)

lemma call_llm_openai_request:
  assumes "lower provider = ''openai''" and "env ''OPENAI_API_KEY'' = Some k"
    and "k \<noteq> []" and "k \<noteq> ''YOUR_API_KEY_HERE''"
  shows "calls (fst (call_llm env b prompt provider model temperature max_tokens)) =
    [\<lparr>req_client = OpenAI, req_api_key = k, req_model = Some (or_str model ''gpt-4o''),
      req_messages = [\<lparr>role = ''user'', content = prompt\<rparr>],
      req_temperature = Some temperature, req_max_tokens = max_tokens\<rparr>]"
  using assms unfolding call_llm_calls
  by (simp add: call_llm_try_def Let_def split: sum.splits list.splits option.splits)

lemma call_llm_anthropic_request:
  assumes "lower provider = ''anthropic''" and "env ''ANTHROPIC_API_KEY'' = Some k"
    and "k \<noteq> []"
  shows "calls (fst (call_llm env b prompt provider model temperature max_tokens)) =
    [\<lparr>req_client = Anthropic, req_api_key = k,
      req_model = Some (or_str model ''claude-3-opus-20240229''),
      req_messages = [\<lparr>role = ''user'', content = prompt\<rparr>],
      req_temperature = Some temperature,
      req_max_tokens = Some (or_int max_tokens 4096)\<rparr>]"
  using assms unfolding call_llm_calls
  by (simp add: call_llm_try_def Let_def split: sum.splits list.splits option.splits)

lemma history_openai_request:
  assumes "messages \<noteq> []" and "lower provider = ''openai''"
    and "env ''OPENAI_API_KEY'' = Some k" and "k \<noteq> []"
  shows "calls (fst (snd (call_llm_with_history env b h messages provider kw))) =
    [\<lparr>req_client = OpenAI, req_api_key = k,
      req_model = kwargs_get (kw_model kw) (Some ''gpt-4o''),
      req_messages = map h messages,
      req_temperature = kwargs_get (kw_temperature kw) (Some (7 / 10)),
      req_max_tokens = kwargs_get (kw_max_tokens kw) None\<rparr>]"
  using assms unfolding call_llm_with_history_calls [OF assms(1)]
  by (simp add: call_llm_with_history_try_def Let_def split: sum.splits list.splits option.splits)

lemma history_anthropic_request:
  assumes "messages \<noteq> []" and "lower provider = ''anthropic''"
    and "env ''ANTHROPIC_API_KEY'' = Some k" and "k \<noteq> []"
  shows "calls (fst (snd (call_llm_with_history env b h messages provider kw))) =
    [\<lparr>req_client = Anthropic, req_api_key = k,
      req_model = kwargs_get (kw_model kw) (Some ''claude-3-opus-20240229''),
      req_messages = anthropic_translation h messages,
      req_temperature = kwargs_get (kw_temperature kw) (Some (7 / 10)),
      req_max_tokens = kwargs_get (kw_max_tokens kw) (Some 4096)\<rparr>]"
  using assms unfolding call_llm_with_history_calls [OF assms(1)]
  by (simp add: call_llm_with_history_try_def anthropic_translation_def Let_def
      split: sum.splits list.splits option.splits prod.splits)

lemma lower_openai: "lower ''openai'' = ''openai''"
  by code_simp

lemma lower_OpenAI: "lower ''OpenAI'' = ''openai''"
  by code_simp

lemma lower_anthropic: "lower ''anthropic'' = ''anthropic''"
  by code_simp

lemma lower_Anthropic: "lower ''Anthropic'' = ''anthropic''"
  by code_simp

lemma lower_gemini: "lower ''gemini'' = ''gemini''"
  by code_simp

lemma str_nat_Suc_0: "str_nat (Suc 0) = ''1''"
  by code_simp

lemma str_nat_Suc_Suc_0: "str_nat (Suc (Suc 0)) = ''2''"
  by code_simp

lemma call_llm_try_fault:
  assumes "r \<in> set (calls (fst (call_llm_try env b prompt provider model temperature max_tokens)))"
    and "fault b r = Some e"
  shows "snd (call_llm_try env b prompt provider model temperature max_tokens) = Inl e
    \<and> calls (fst (call_llm_try env b prompt provider model temperature max_tokens)) = [r]"
  using assms
  by (auto simp: call_llm_try_def fault_def Let_def
      split: if_splits option.splits sum.splits list.splits)

lemma call_llm_with_history_try_fault:
  assumes "r \<in> set (calls (fst (snd (call_llm_with_history_try env b h messages provider kw))))"
    and "fault b r = Some e"
  shows "snd (snd (call_llm_with_history_try env b h messages provider kw)) = Inl e
    \<and> calls (fst (snd (call_llm_with_history_try env b h messages provider kw))) = [r]"
  using assms
  by (auto simp: call_llm_with_history_try_def fault_def Let_def
      split: if_splits option.splits sum.splits list.splits prod.splits)

lemma errors_append: "errors (xs @ ys) = errors xs @ errors ys"
  by (induction xs rule: errors.induct) simp_all

lemma call_llm_try_errors:
  "errors (fst (call_llm_try env b prompt provider model temperature max_tokens)) = []"
  by (simp add: call_llm_try_def Let_def split: option.splits sum.splits list.splits)

lemma call_llm_with_history_try_errors:
  "errors (fst (snd (call_llm_with_history_try env b h messages provider kw))) = []"
  by (simp add: call_llm_with_history_try_def Let_def
      split: option.splits sum.splits list.splits prod.splits)

lemma call_llm_raises:
  assumes "snd (call_llm_try env b prompt provider model temperature max_tokens) = Inl e"
  shows "snd (call_llm env b prompt provider model temperature max_tokens) = Inl e"
    and "errors (fst (call_llm env b prompt provider model temperature max_tokens)) =
       (if is_Exception e then [''Error calling '' @ provider @ '' LLM: '' @ exn_str e] else [])"
    and "is_Exception e \<Longrightarrow>
       last (fst (call_llm env b prompt provider model temperature max_tokens)) =
       LogError (''Error calling '' @ provider @ '' LLM: '' @ exn_str e)"
  using assms call_llm_try_errors [of env b prompt provider model temperature max_tokens]
  by (cases "call_llm_try env b prompt provider model temperature max_tokens";
      simp add: call_llm_def Let_def errors_append)+

lemma call_llm_with_history_raises:
  assumes "messages \<noteq> []"
    and "snd (snd (call_llm_with_history_try env b h messages provider kw)) = Inl e"
  shows "snd (snd (call_llm_with_history env b h messages provider kw)) = Inl e"
    and "errors (fst (snd (call_llm_with_history env b h messages provider kw))) =
       (if is_Exception e
        then [''Error calling '' @ provider @ '' with history: '' @ exn_str e] else [])"
    and "is_Exception e \<Longrightarrow>
       last (fst (snd (call_llm_with_history env b h messages provider kw))) =
       LogError (''Error calling '' @ provider @ '' with history: '' @ exn_str e)"
  using assms call_llm_with_history_try_errors [of env b h messages provider kw]
  by (cases "call_llm_with_history_try env b h messages provider kw";
      simp add: call_llm_with_history_def Let_def errors_append)+

subsection \<open>What the two entry points share\<close>

text \<open>
  \<^verbatim>\<open>call_llm\<close> rejects every provider name that does not lower to one of the two it
  knows, and both entry points reject a credential that is missing or empty, before any
  request is sent.
\<close>

lemma call_llm_unsupported_provider:
  assumes "lower provider \<noteq> ''openai''" and "lower provider \<noteq> ''anthropic''"
  shows "call_llm env b prompt provider model temperature max_tokens =
    ([LogInfo (''Calling '' @ provider @ '' LLM with prompt length: '' @ str_nat (length prompt)),
      LogError (''Error calling '' @ provider @ '' LLM: '' @ ''Unsupported provider: '' @ provider)],
     Inl (ValueError (''Unsupported provider: '' @ provider)))"
  using assms by (simp add: call_llm_def call_llm_try_def)

lemma call_llm_missing_credential:
  assumes "lower provider = ''openai'' \<and> env ''OPENAI_API_KEY'' \<in> {None, Some []}
    \<or> lower provider = ''anthropic'' \<and> env ''ANTHROPIC_API_KEY'' \<in> {None, Some []}"
  shows "calls (fst (call_llm env b prompt provider model temperature max_tokens)) = []
    \<and> (\<exists>m. snd (call_llm env b prompt provider model temperature max_tokens) =
          Inl (ValueError m))"
  using assms unfolding call_llm_calls
  by (auto simp: call_llm_def call_llm_try_def split: option.splits)

lemma call_llm_with_history_missing_credential:
  assumes "lower provider = ''openai'' \<and> env ''OPENAI_API_KEY'' \<in> {None, Some []}
    \<or> lower provider = ''anthropic'' \<and> env ''ANTHROPIC_API_KEY'' \<in> {None, Some []}"
  shows "calls (fst (snd (call_llm_with_history env b h messages provider kw))) = []
    \<and> (\<exists>m. snd (snd (call_llm_with_history env b h messages provider kw)) =
          Inl (ValueError m))"
  using assms
  by (auto simp: call_llm_with_history_def call_llm_with_history_try_def Let_def
      split: option.splits)

subsection \<open>The claims\<close>

text \<open>
  C5. \<^verbatim>\<open>call_llm_with_history\<close> with an empty list of messages raises
  \<^verbatim>\<open>ValueError("Messages list cannot be empty")\<close> whatever the provider, the environment,
  the clients and the keyword arguments are. It has then done nothing else: no log line, no
  read of the environment, no request to a client, and the store is untouched.
\<close>

theorem empty_history_rejected:
  "call_llm_with_history env b h [] provider kw =
     (h, [], Inl (ValueError ''Messages list cannot be empty''))
   \<and> lookups (fst (snd (call_llm_with_history env b h [] provider kw))) = []
   \<and> calls (fst (snd (call_llm_with_history env b h [] provider kw))) = []"
  by (simp add: call_llm_with_history_def)

text \<open>
  C9. When the first message of the list is a user message, every system message of the
  rest of the list is prepended, with two newlines, to the content of that first message,
  one after the other: in the request the first message carries the system contents in the
  reverse of their order in the input, before its own content. With exactly two system
  contents \<open>c1\<close> and \<open>c2\<close>, in this order in the input, it reads \<open>c2\<close>, two newlines,
  \<open>c1\<close>, two newlines, the original content. The other messages sent are the non-system
  messages of the rest, read in the final store.
\<close>

theorem first_user_collects_system_reversed:
  "role (h m) = ''user'' \<Longrightarrow>
   anthropic_translation h (m # ms) =
     (h m)\<lparr>content := folded_prefix (system_contents h ms) @ content (h m)\<rparr>
     # map (h(m := (h m)\<lparr>content := folded_prefix (system_contents h ms) @ content (h m)\<rparr>))
         (filter (\<lambda>x. role (h x) \<noteq> ''system'') ms)
   \<and> (\<forall>c1 c2. system_contents h ms = [c1, c2] \<longrightarrow>
         content (hd (anthropic_translation h (m # ms))) = c2 @ nl2 @ c1 @ nl2 @ content (h m))"
proof -
  assume user: "role (h m) = ''user''"
  have "anthropic_messages h [] (m # ms) = anthropic_messages h [m] ms"
    using user by simp
  also have "\<dots> =
    (h(m := (h m)\<lparr>content := folded_prefix (system_contents h ms) @ content (h m)\<rparr>),
     [m] @ filter (\<lambda>x. role (h x) \<noteq> ''system'') ms)"
    using user by (rule anthropic_messages_user_head)
  finally have shape: "anthropic_translation h (m # ms) =
     (h m)\<lparr>content := folded_prefix (system_contents h ms) @ content (h m)\<rparr>
     # map (h(m := (h m)\<lparr>content := folded_prefix (system_contents h ms) @ content (h m)\<rparr>))
         (filter (\<lambda>x. role (h x) \<noteq> ''system'') ms)"
    by (simp add: anthropic_translation_def)
  show ?thesis
    by (rule conjI, rule shape) (simp add: shape folded_prefix_def)
qed

theorem first_user_collects_system_reversed_witness:
  "role (late_system_messages 0) = ''user''
   \<and> anthropic_translation late_system_messages [0, 1, 2, 3] =
       [\<lparr>role = ''user'', content = ''B'' @ nl2 @ ''A'' @ nl2 @ ''U''\<rparr>,
        \<lparr>role = ''assistant'', content = ''R''\<rparr>]"
  using first_user_collects_system_reversed [of late_system_messages 0 "[1, 2, 3]"]
  by (simp add: late_system_messages_def system_contents_def folded_prefix_def)

text \<open>
  C4. A system message that no user message precedes contributes nothing: the loop ends
  in the same store and with the same list of messages as on the input without that
  message, so the sequence sent is the one sent for the input without it, and no message
  of the sequence sent has the role \<^verbatim>\<open>system\<close>.
\<close>

theorem system_before_any_user_dropped:
  assumes "role (h s) = ''system''" and "\<forall>m \<in> set pre. role (h m) \<noteq> ''user''"
  shows "anthropic_messages h [] (pre @ s # post) = anthropic_messages h [] (pre @ post)
    \<and> anthropic_translation h (pre @ s # post) = anthropic_translation h (pre @ post)
    \<and> (\<forall>m \<in> set (anthropic_translation h (pre @ s # post)). role m \<noteq> ''system'')"
proof -
  let ?kept = "filter (\<lambda>m. role (h m) \<noteq> ''system'') pre"
  have kept: "\<forall>a \<in> set ([] @ ?kept). role (h a) \<noteq> ''user''"
    using assms(2) by simp
  have "anthropic_messages h [] (pre @ s # post) = anthropic_messages h ([] @ ?kept) (s # post)"
    using assms(2) by (intro anthropic_messages_no_user) simp_all
  also have "\<dots> = anthropic_messages h ([] @ ?kept) post"
    using assms(1) kept by (rule anthropic_messages_skip_system)
  also have "\<dots> = anthropic_messages h [] (pre @ post)"
    using assms(2) by (intro anthropic_messages_no_user [symmetric]) simp_all
  finally have same: "anthropic_messages h [] (pre @ s # post) = anthropic_messages h [] (pre @ post)" .
  then have "anthropic_translation h (pre @ s # post) = anthropic_translation h (pre @ post)"
    by (simp add: anthropic_translation_def)
  moreover have "\<forall>m \<in> set (anthropic_translation h (pre @ s # post)). role m \<noteq> ''system''"
    using anthropic_translation_no_system by blast
  ultimately show ?thesis using same by simp
qed

theorem system_before_any_user_dropped_witness:
  "role (main_messages 0) = ''system''
   \<and> anthropic_translation main_messages ([] @ 0 # [1, 2, 3]) =
       anthropic_translation main_messages ([] @ [1, 2, 3])
   \<and> anthropic_translation main_messages [1, 2, 3] =
       [\<lparr>role = ''user'', content = ''What is Python?''\<rparr>,
        \<lparr>role = ''assistant'', content = ''Python is a high-level programming language.''\<rparr>,
        \<lparr>role = ''user'', content = ''What are its main uses?''\<rparr>]"
  using system_before_any_user_dropped [of main_messages 0 "[]" "[1, 2, 3]"]
  by (simp add: main_messages_def anthropic_translation_def)

text \<open>
  C10. \<^verbatim>\<open>call_llm\<close> with provider \<^verbatim>\<open>anthropic\<close> (in any casing), a credential, and
  \<^verbatim>\<open>max_tokens=0\<close> sends exactly one request, and its \<^verbatim>\<open>max_tokens\<close> is 4096, not 0:
  line 66 is \<^verbatim>\<open>max_tokens or 4096\<close>, and \<^verbatim>\<open>0\<close> is falsy.
\<close>

theorem anthropic_zero_max_tokens_defaulted:
  assumes "lower provider = ''anthropic''" and "env ''ANTHROPIC_API_KEY'' = Some k" and "k \<noteq> []"
  shows "map req_max_tokens
           (calls (fst (call_llm env b prompt provider model temperature (Some 0)))) = [Some 4096]"
  using assms by (simp add: call_llm_anthropic_request or_int_def)

theorem anthropic_zero_max_tokens_defaulted_witness:
  "lower ''Anthropic'' = ''anthropic'' \<and> keys_env ''ANTHROPIC_API_KEY'' = Some ''sk-2''
   \<and> map req_max_tokens
        (calls (fst (call_llm keys_env echo_backend ''hi'' ''Anthropic'' None (7 / 10) (Some 0))))
      = [Some 4096]"
  using anthropic_zero_max_tokens_defaulted
    [of "''Anthropic''" keys_env "''sk-2''" echo_backend "''hi''" None "7 / 10"]
  by (simp add: lower_Anthropic keys_env_def)

text \<open>
  C7. When \<^verbatim>\<open>max_tokens\<close> is omitted (the default \<^verbatim>\<open>None\<close> of \<^verbatim>\<open>call_llm\<close>, no
  \<^verbatim>\<open>max_tokens\<close> key among the keyword arguments of \<^verbatim>\<open>call_llm_with_history\<close>), the one
  request sent to OpenAI has \<^verbatim>\<open>max_tokens=None\<close>, which leaves the limit to the provider,
  and the one request sent to Anthropic has \<^verbatim>\<open>max_tokens=4096\<close>, in both entry points.
  The hypotheses are those under which the branch sends a request: the provider name, a
  credential the branch accepts, and for the multi-turn entry point a non-empty list.
\<close>

theorem omitted_max_tokens:
  "(lower provider = ''openai'' \<and> env ''OPENAI_API_KEY'' = Some k \<and> k \<noteq> []
      \<and> k \<noteq> ''YOUR_API_KEY_HERE'' \<longrightarrow>
      map req_max_tokens
        (calls (fst (call_llm env b prompt provider model temperature None))) = [None])
   \<and> (lower provider = ''anthropic'' \<and> env ''ANTHROPIC_API_KEY'' = Some k \<and> k \<noteq> [] \<longrightarrow>
      map req_max_tokens
        (calls (fst (call_llm env b prompt provider model temperature None))) = [Some 4096])
   \<and> (messages \<noteq> [] \<and> kw_max_tokens kw = None \<and> lower provider = ''openai''
      \<and> env ''OPENAI_API_KEY'' = Some k \<and> k \<noteq> [] \<longrightarrow>
      map req_max_tokens
        (calls (fst (snd (call_llm_with_history env b h messages provider kw)))) = [None])
   \<and> (messages \<noteq> [] \<and> kw_max_tokens kw = None \<and> lower provider = ''anthropic''
      \<and> env ''ANTHROPIC_API_KEY'' = Some k \<and> k \<noteq> [] \<longrightarrow>
      map req_max_tokens
        (calls (fst (snd (call_llm_with_history env b h messages provider kw)))) = [Some 4096])"
proof (intro conjI impI)
  assume "lower provider = ''openai'' \<and> env ''OPENAI_API_KEY'' = Some k \<and> k \<noteq> []
      \<and> k \<noteq> ''YOUR_API_KEY_HERE''"
  then show "map req_max_tokens
        (calls (fst (call_llm env b prompt provider model temperature None))) = [None]"
    by (simp add: call_llm_openai_request)
next
  assume "lower provider = ''anthropic'' \<and> env ''ANTHROPIC_API_KEY'' = Some k \<and> k \<noteq> []"
  then show "map req_max_tokens
        (calls (fst (call_llm env b prompt provider model temperature None))) = [Some 4096]"
    by (simp add: call_llm_anthropic_request or_int_def)
next
  assume "messages \<noteq> [] \<and> kw_max_tokens kw = None \<and> lower provider = ''openai''
      \<and> env ''OPENAI_API_KEY'' = Some k \<and> k \<noteq> []"
  then show "map req_max_tokens
        (calls (fst (snd (call_llm_with_history env b h messages provider kw)))) = [None]"
    by (simp add: history_openai_request kwargs_get_def)
next
  assume "messages \<noteq> [] \<and> kw_max_tokens kw = None \<and> lower provider = ''anthropic''
      \<and> env ''ANTHROPIC_API_KEY'' = Some k \<and> k \<noteq> []"
  then show "map req_max_tokens
        (calls (fst (snd (call_llm_with_history env b h messages provider kw)))) = [Some 4096]"
    by (simp add: history_anthropic_request kwargs_get_def)
qed

theorem omitted_max_tokens_witness:
  "map req_max_tokens
     (calls (fst (call_llm keys_env echo_backend ''hi'' ''OpenAI'' None (7 / 10) None))) = [None]
   \<and> map req_max_tokens
     (calls (fst (call_llm keys_env echo_backend ''hi'' ''Anthropic'' None (7 / 10) None)))
     = [Some 4096]
   \<and> map req_max_tokens
     (calls (fst (snd (call_llm_with_history keys_env echo_backend main_messages [0, 1, 2, 3]
        ''OpenAI'' no_kwargs)))) = [None]
   \<and> map req_max_tokens
     (calls (fst (snd (call_llm_with_history keys_env echo_backend main_messages [0, 1, 2, 3]
        ''Anthropic'' no_kwargs)))) = [Some 4096]"
  using
    omitted_max_tokens [where provider = "''OpenAI''" and env = keys_env and k = "''sk-1''"
      and b = echo_backend and prompt = "''hi''" and model = None and temperature = "7 / 10"
      and messages = "[0, 1, 2, 3]" and kw = no_kwargs and h = main_messages]
    omitted_max_tokens [where provider = "''Anthropic''" and env = keys_env and k = "''sk-2''"
      and b = echo_backend and prompt = "''hi''" and model = None and temperature = "7 / 10"
      and messages = "[0, 1, 2, 3]" and kw = no_kwargs and h = main_messages]
  by (simp add: lower_OpenAI lower_Anthropic keys_env_def no_kwargs_def)

text \<open>
  C8 as stated fails for the explicit model \<^verbatim>\<open>""\<close>: \<^verbatim>\<open>call_llm\<close> does not send it, it
  sends \<^verbatim>\<open>gpt-4o\<close>.
\<close>

theorem empty_model_not_verbatim:
  "map req_model
     (calls (fst (call_llm keys_env echo_backend ''hi'' ''openai'' (Some '''') (7 / 10) None)))
     = [Some ''gpt-4o'']
   \<and> map req_model
     (calls (fst (call_llm keys_env echo_backend ''hi'' ''openai'' (Some '''') (7 / 10) None)))
     \<noteq> [Some '''']"
  by (simp add: call_llm_openai_request [where k = "''sk-1''"] lower_openai keys_env_def or_str_def)

text \<open>
  C8, as the code has it. In \<^verbatim>\<open>call_llm\<close> the request carries the provider's default
  model (\<^verbatim>\<open>gpt-4o\<close>, \<^verbatim>\<open>claude-3-opus-20240229\<close>) when \<^verbatim>\<open>model\<close> is \<^verbatim>\<open>None\<close> or the
  empty string, and the given string otherwise (\<^verbatim>\<open>model or "..."\<close>, lines 44 and 60). In
  \<^verbatim>\<open>call_llm_with_history\<close> it carries the default when no \<^verbatim>\<open>model\<close> key was passed, and
  otherwise the value passed, whatever it is (\<^verbatim>\<open>kwargs.get("model", "...")\<close>, lines 118
  and 134).
\<close>

theorem model_selection:
  "(lower provider = ''openai'' \<and> env ''OPENAI_API_KEY'' = Some k \<and> k \<noteq> []
      \<and> k \<noteq> ''YOUR_API_KEY_HERE'' \<longrightarrow>
      map req_model (calls (fst (call_llm env b prompt provider model temperature max_tokens)))
      = [Some (case model of None \<Rightarrow> ''gpt-4o''
               | Some s \<Rightarrow> if s = [] then ''gpt-4o'' else s)])
   \<and> (lower provider = ''anthropic'' \<and> env ''ANTHROPIC_API_KEY'' = Some k \<and> k \<noteq> [] \<longrightarrow>
      map req_model (calls (fst (call_llm env b prompt provider model temperature max_tokens)))
      = [Some (case model of None \<Rightarrow> ''claude-3-opus-20240229''
               | Some s \<Rightarrow> if s = [] then ''claude-3-opus-20240229'' else s)])
   \<and> (messages \<noteq> [] \<and> lower provider = ''openai''
      \<and> env ''OPENAI_API_KEY'' = Some k \<and> k \<noteq> [] \<longrightarrow>
      map req_model (calls (fst (snd (call_llm_with_history env b h messages provider kw))))
      = [case kw_model kw of None \<Rightarrow> Some ''gpt-4o'' | Some v \<Rightarrow> v])
   \<and> (messages \<noteq> [] \<and> lower provider = ''anthropic''
      \<and> env ''ANTHROPIC_API_KEY'' = Some k \<and> k \<noteq> [] \<longrightarrow>
      map req_model (calls (fst (snd (call_llm_with_history env b h messages provider kw))))
      = [case kw_model kw of None \<Rightarrow> Some ''claude-3-opus-20240229'' | Some v \<Rightarrow> v])"
proof (intro conjI impI)
  assume "lower provider = ''openai'' \<and> env ''OPENAI_API_KEY'' = Some k \<and> k \<noteq> []
      \<and> k \<noteq> ''YOUR_API_KEY_HERE''"
  then show "map req_model
      (calls (fst (call_llm env b prompt provider model temperature max_tokens)))
      = [Some (case model of None \<Rightarrow> ''gpt-4o''
               | Some s \<Rightarrow> if s = [] then ''gpt-4o'' else s)]"
    by (simp add: call_llm_openai_request or_str_def)
next
  assume "lower provider = ''anthropic'' \<and> env ''ANTHROPIC_API_KEY'' = Some k \<and> k \<noteq> []"
  then show "map req_model
      (calls (fst (call_llm env b prompt provider model temperature max_tokens)))
      = [Some (case model of None \<Rightarrow> ''claude-3-opus-20240229''
               | Some s \<Rightarrow> if s = [] then ''claude-3-opus-20240229'' else s)]"
    by (simp add: call_llm_anthropic_request or_str_def)
next
  assume "messages \<noteq> [] \<and> lower provider = ''openai''
      \<and> env ''OPENAI_API_KEY'' = Some k \<and> k \<noteq> []"
  then show "map req_model
      (calls (fst (snd (call_llm_with_history env b h messages provider kw))))
      = [case kw_model kw of None \<Rightarrow> Some ''gpt-4o'' | Some v \<Rightarrow> v]"
    by (simp add: history_openai_request kwargs_get_def)
next
  assume "messages \<noteq> [] \<and> lower provider = ''anthropic''
      \<and> env ''ANTHROPIC_API_KEY'' = Some k \<and> k \<noteq> []"
  then show "map req_model
      (calls (fst (snd (call_llm_with_history env b h messages provider kw))))
      = [case kw_model kw of None \<Rightarrow> Some ''claude-3-opus-20240229'' | Some v \<Rightarrow> v]"
    by (simp add: history_anthropic_request kwargs_get_def)
qed

theorem model_selection_witness:
  "map req_model
     (calls (fst (call_llm keys_env echo_backend ''hi'' ''OpenAI'' (Some ''gpt-4o-mini'')
        (7 / 10) None))) = [Some ''gpt-4o-mini'']
   \<and> map req_model
     (calls (fst (call_llm keys_env echo_backend ''hi'' ''Anthropic'' None (7 / 10) None)))
     = [Some ''claude-3-opus-20240229'']
   \<and> map req_model
     (calls (fst (snd (call_llm_with_history keys_env echo_backend main_messages [0, 1, 2, 3]
        ''OpenAI'' no_kwargs)))) = [Some ''gpt-4o'']
   \<and> map req_model
     (calls (fst (snd (call_llm_with_history keys_env echo_backend main_messages [0, 1, 2, 3]
        ''Anthropic'' (no_kwargs\<lparr>kw_model := Some (Some '''')\<rparr>))))) = [Some '''']"
  using
    model_selection [where provider = "''OpenAI''" and env = keys_env and k = "''sk-1''"
      and b = echo_backend and prompt = "''hi''" and model = "Some ''gpt-4o-mini''"
      and temperature = "7 / 10" and max_tokens = None
      and messages = "[0, 1, 2, 3]" and kw = no_kwargs and h = main_messages]
    model_selection [where provider = "''Anthropic''" and env = keys_env and k = "''sk-2''"
      and b = echo_backend and prompt = "''hi''" and model = None
      and temperature = "7 / 10" and max_tokens = None
      and messages = "[0, 1, 2, 3]" and kw = "no_kwargs\<lparr>kw_model := Some (Some '''')\<rparr>"
      and h = main_messages]
  by (simp add: lower_OpenAI lower_Anthropic keys_env_def no_kwargs_def)

text \<open>
  C3 as stated fails: the error that reaches the caller is the client's exception as it
  is. With a client that raises a connection error, \<^verbatim>\<open>call_llm\<close> raises the same value for
  \<^verbatim>\<open>openai\<close> and for \<^verbatim>\<open>anthropic\<close>, and neither name occurs in its class name or in
  its message.
\<close>

theorem reraised_fault_lacks_provider:
  "snd (call_llm keys_env down_backend ''hi'' ''openai'' None (7 / 10) None)
     = Inl connection_error
   \<and> snd (call_llm keys_env down_backend ''hi'' ''anthropic'' None (7 / 10) None)
     = Inl connection_error
   \<and> \<not> sublist ''openai'' (exn_class connection_error)
   \<and> \<not> sublist ''openai'' (exn_str connection_error)
   \<and> \<not> sublist ''anthropic'' (exn_class connection_error)
   \<and> \<not> sublist ''anthropic'' (exn_str connection_error)"
proof -
  have "snd (call_llm keys_env down_backend ''hi'' ''openai'' None (7 / 10) None)
     = Inl connection_error"
    by (simp add: call_llm_def call_llm_try_def lower_openai keys_env_def down_backend_def
        connection_error_def)
  moreover have "snd (call_llm keys_env down_backend ''hi'' ''anthropic'' None (7 / 10) None)
     = Inl connection_error"
    by (simp add: call_llm_def call_llm_try_def lower_anthropic keys_env_def down_backend_def
        connection_error_def)
  moreover have "\<not> sublist ''openai'' ''APIConnectionError''"
    by code_simp
  moreover have "\<not> sublist ''openai'' ''Connection error.''"
    by code_simp
  moreover have "\<not> sublist ''anthropic'' ''APIConnectionError''"
    by code_simp
  moreover have "\<not> sublist ''anthropic'' ''Connection error.''"
    by code_simp
  ultimately show ?thesis by (simp add: connection_error_def)
qed

text \<open>
  C3, as the code has it. When the client raises on the request an entry point sends, the
  entry point raises that very exception (the handlers of lines 76 and 154 end in a bare
  \<^verbatim>\<open>raise\<close>, and what they do not catch propagates by itself), that request is the only
  one sent, and nothing is returned. When the exception is an \<^verbatim>\<open>Exception\<close>, exactly one
  error line is logged, it is the last thing done, and it holds the provider name as the
  caller gave it and \<^verbatim>\<open>str(e)\<close>; when it is not (\<^verbatim>\<open>KeyboardInterrupt\<close>,
  \<^verbatim>\<open>SystemExit\<close>), no error line is logged. The provider name is in the log line only:
  the exception is not wrapped.
\<close>

theorem client_fault_reraised_unchanged:
  "(r \<in> set (calls (fst (call_llm env b prompt provider model temperature max_tokens)))
      \<and> fault b r = Some e \<longrightarrow>
      snd (call_llm env b prompt provider model temperature max_tokens) = Inl e
      \<and> calls (fst (call_llm env b prompt provider model temperature max_tokens)) = [r]
      \<and> errors (fst (call_llm env b prompt provider model temperature max_tokens)) =
          (if is_Exception e
           then [''Error calling '' @ provider @ '' LLM: '' @ exn_str e] else [])
      \<and> (is_Exception e \<longrightarrow>
          last (fst (call_llm env b prompt provider model temperature max_tokens)) =
          LogError (''Error calling '' @ provider @ '' LLM: '' @ exn_str e)))
   \<and> (r \<in> set (calls (fst (snd (call_llm_with_history env b h messages provider kw))))
      \<and> fault b r = Some e \<longrightarrow>
      snd (snd (call_llm_with_history env b h messages provider kw)) = Inl e
      \<and> calls (fst (snd (call_llm_with_history env b h messages provider kw))) = [r]
      \<and> errors (fst (snd (call_llm_with_history env b h messages provider kw))) =
          (if is_Exception e
           then [''Error calling '' @ provider @ '' with history: '' @ exn_str e] else [])
      \<and> (is_Exception e \<longrightarrow>
          last (fst (snd (call_llm_with_history env b h messages provider kw))) =
          LogError (''Error calling '' @ provider @ '' with history: '' @ exn_str e)))"
proof (intro conjI impI)
  assume a: "r \<in> set (calls (fst (call_llm env b prompt provider model temperature max_tokens)))
      \<and> fault b r = Some e"
  then have inner: "snd (call_llm_try env b prompt provider model temperature max_tokens) = Inl e
    \<and> calls (fst (call_llm_try env b prompt provider model temperature max_tokens)) = [r]"
    by (intro call_llm_try_fault) (simp_all add: call_llm_calls)
  then have raised: "snd (call_llm_try env b prompt provider model temperature max_tokens) = Inl e"
    by simp
  show "snd (call_llm env b prompt provider model temperature max_tokens) = Inl e"
    using raised by (rule call_llm_raises(1))
  show "calls (fst (call_llm env b prompt provider model temperature max_tokens)) = [r]"
    using inner by (simp add: call_llm_calls)
  show "errors (fst (call_llm env b prompt provider model temperature max_tokens)) =
          (if is_Exception e
           then [''Error calling '' @ provider @ '' LLM: '' @ exn_str e] else [])"
    using raised by (rule call_llm_raises(2))
  show "last (fst (call_llm env b prompt provider model temperature max_tokens)) =
          LogError (''Error calling '' @ provider @ '' LLM: '' @ exn_str e)"
    if "is_Exception e"
    using raised that by (rule call_llm_raises(3))
next
  assume a: "r \<in> set (calls (fst (snd (call_llm_with_history env b h messages provider kw))))
      \<and> fault b r = Some e"
  have ne: "messages \<noteq> []"
    using a by (auto simp: call_llm_with_history_def)
  from a have inner: "snd (snd (call_llm_with_history_try env b h messages provider kw)) = Inl e
    \<and> calls (fst (snd (call_llm_with_history_try env b h messages provider kw))) = [r]"
    by (intro call_llm_with_history_try_fault) (simp_all add: call_llm_with_history_calls [OF ne])
  then have raised: "snd (snd (call_llm_with_history_try env b h messages provider kw)) = Inl e"
    by simp
  show "snd (snd (call_llm_with_history env b h messages provider kw)) = Inl e"
    using ne raised by (rule call_llm_with_history_raises(1))
  show "calls (fst (snd (call_llm_with_history env b h messages provider kw))) = [r]"
    using inner by (simp add: call_llm_with_history_calls [OF ne])
  show "errors (fst (snd (call_llm_with_history env b h messages provider kw))) =
          (if is_Exception e
           then [''Error calling '' @ provider @ '' with history: '' @ exn_str e] else [])"
    using ne raised by (rule call_llm_with_history_raises(2))
  show "last (fst (snd (call_llm_with_history env b h messages provider kw))) =
          LogError (''Error calling '' @ provider @ '' with history: '' @ exn_str e)"
    if "is_Exception e"
    using ne raised that by (rule call_llm_with_history_raises(3))
qed

theorem client_fault_reraised_unchanged_witness:
  "fault down_backend
     \<lparr>req_client = OpenAI, req_api_key = ''sk-1'', req_model = Some ''gpt-4o'',
      req_messages = [\<lparr>role = ''user'', content = ''hi''\<rparr>],
      req_temperature = Some (7 / 10), req_max_tokens = None\<rparr> = Some connection_error
   \<and> is_Exception connection_error
   \<and> calls (fst (call_llm keys_env down_backend ''hi'' ''OpenAI'' None (7 / 10) None)) =
       [\<lparr>req_client = OpenAI, req_api_key = ''sk-1'', req_model = Some ''gpt-4o'',
         req_messages = [\<lparr>role = ''user'', content = ''hi''\<rparr>],
         req_temperature = Some (7 / 10), req_max_tokens = None\<rparr>]
   \<and> snd (call_llm keys_env down_backend ''hi'' ''OpenAI'' None (7 / 10) None)
       = Inl connection_error
   \<and> errors (fst (call_llm keys_env down_backend ''hi'' ''OpenAI'' None (7 / 10) None))
       = [''Error calling OpenAI LLM: Connection error.'']
   \<and> last (fst (call_llm keys_env down_backend ''hi'' ''OpenAI'' None (7 / 10) None))
       = LogError ''Error calling OpenAI LLM: Connection error.''
   \<and> fault down_backend
     \<lparr>req_client = Anthropic, req_api_key = ''sk-2'',
      req_model = Some ''claude-3-opus-20240229'',
      req_messages = [\<lparr>role = ''user'', content = ''U''\<rparr>],
      req_temperature = Some (7 / 10), req_max_tokens = Some 4096\<rparr> = Some connection_error
   \<and> calls (fst (snd (call_llm_with_history keys_env down_backend late_system_messages [0]
        ''anthropic'' no_kwargs))) =
       [\<lparr>req_client = Anthropic, req_api_key = ''sk-2'',
         req_model = Some ''claude-3-opus-20240229'',
         req_messages = [\<lparr>role = ''user'', content = ''U''\<rparr>],
         req_temperature = Some (7 / 10), req_max_tokens = Some 4096\<rparr>]
   \<and> snd (snd (call_llm_with_history keys_env down_backend late_system_messages [0]
        ''anthropic'' no_kwargs)) = Inl connection_error
   \<and> errors (fst (snd (call_llm_with_history keys_env down_backend late_system_messages [0]
        ''anthropic'' no_kwargs))) =
       [''Error calling anthropic with history: Connection error.'']
   \<and> fault interrupted_backend
     \<lparr>req_client = OpenAI, req_api_key = ''sk-1'', req_model = Some ''gpt-4o'',
      req_messages = [\<lparr>role = ''user'', content = ''hi''\<rparr>],
      req_temperature = Some (7 / 10), req_max_tokens = None\<rparr> = Some keyboard_interrupt
   \<and> \<not> is_Exception keyboard_interrupt
   \<and> snd (call_llm keys_env interrupted_backend ''hi'' ''OpenAI'' None (7 / 10) None)
       = Inl keyboard_interrupt
   \<and> errors (fst (call_llm keys_env interrupted_backend ''hi'' ''OpenAI'' None (7 / 10) None))
       = []"
proof -
  let ?r1 = "\<lparr>req_client = OpenAI, req_api_key = ''sk-1'', req_model = Some ''gpt-4o'',
              req_messages = [\<lparr>role = ''user'', content = ''hi''\<rparr>],
              req_temperature = Some (7 / 10), req_max_tokens = None\<rparr>"
  let ?r2 = "\<lparr>req_client = Anthropic, req_api_key = ''sk-2'',
              req_model = Some ''claude-3-opus-20240229'',
              req_messages = [\<lparr>role = ''user'', content = ''U''\<rparr>],
              req_temperature = Some (7 / 10), req_max_tokens = Some 4096\<rparr>"
  have f1: "fault down_backend ?r1 = Some connection_error"
    by (simp add: fault_def down_backend_def)
  have f2: "fault down_backend ?r2 = Some connection_error"
    by (simp add: fault_def down_backend_def)
  have f3: "fault interrupted_backend ?r1 = Some keyboard_interrupt"
    by (simp add: fault_def interrupted_backend_def)
  have e1: "is_Exception connection_error"
    by (simp add: connection_error_def)
  have e3: "\<not> is_Exception keyboard_interrupt"
    by (simp add: keyboard_interrupt_def)
  have c1: "calls (fst (call_llm keys_env down_backend ''hi'' ''OpenAI'' None (7 / 10) None))
      = [?r1]"
    by (simp add: call_llm_openai_request [where k = "''sk-1''"] lower_OpenAI keys_env_def
        or_str_def)
  have c2: "calls (fst (snd (call_llm_with_history keys_env down_backend late_system_messages
      [0] ''anthropic'' no_kwargs))) = [?r2]"
    by (simp add: history_anthropic_request [where k = "''sk-2''"] lower_anthropic keys_env_def
        kwargs_get_def no_kwargs_def anthropic_translation_def late_system_messages_def)
  have c3: "calls (fst (call_llm keys_env interrupted_backend ''hi'' ''OpenAI'' None (7 / 10)
      None)) = [?r1]"
    by (simp add: call_llm_openai_request [where k = "''sk-1''"] lower_OpenAI keys_env_def
        or_str_def)
  have t1: "snd (call_llm keys_env down_backend ''hi'' ''OpenAI'' None (7 / 10) None)
      = Inl connection_error
    \<and> errors (fst (call_llm keys_env down_backend ''hi'' ''OpenAI'' None (7 / 10) None))
      = [''Error calling OpenAI LLM: Connection error.'']
    \<and> last (fst (call_llm keys_env down_backend ''hi'' ''OpenAI'' None (7 / 10) None))
      = LogError ''Error calling OpenAI LLM: Connection error.''"
    using client_fault_reraised_unchanged [where env = keys_env and b = down_backend
      and prompt = "''hi''" and provider = "''OpenAI''" and model = None
      and temperature = "7 / 10" and max_tokens = None and e = connection_error
      and r = ?r1, THEN conjunct1] f1 e1
    by (simp add: c1 connection_error_def)
  have t2: "snd (snd (call_llm_with_history keys_env down_backend late_system_messages [0]
      ''anthropic'' no_kwargs)) = Inl connection_error
    \<and> errors (fst (snd (call_llm_with_history keys_env down_backend late_system_messages [0]
      ''anthropic'' no_kwargs))) = [''Error calling anthropic with history: Connection error.'']"
    using client_fault_reraised_unchanged [where env = keys_env and b = down_backend
      and h = late_system_messages and messages = "[0]" and provider = "''anthropic''"
      and kw = no_kwargs and e = connection_error and r = ?r2, THEN conjunct2] f2 e1
    by (simp add: c2 connection_error_def)
  have t3: "snd (call_llm keys_env interrupted_backend ''hi'' ''OpenAI'' None (7 / 10) None)
      = Inl keyboard_interrupt
    \<and> errors (fst (call_llm keys_env interrupted_backend ''hi'' ''OpenAI'' None (7 / 10) None))
      = []"
    using client_fault_reraised_unchanged [where env = keys_env and b = interrupted_backend
      and prompt = "''hi''" and provider = "''OpenAI''" and model = None
      and temperature = "7 / 10" and max_tokens = None and e = keyboard_interrupt
      and r = ?r1, THEN conjunct1] f3 e3
    by (simp add: c3)
  show ?thesis
    using f1 f2 f3 e1 e3 c1 c2 c3 t1 t2 t3 by simp
qed

text \<open>
  C1 does not hold of the code. The conversation of the module's test block has a system
  message followed by user messages; sent through the Anthropic branch, the request holds
  the three other messages with their contents unchanged. The system content is in none of
  them: when the system message is met, \<^verbatim>\<open>anthropic_messages\<close> is still empty, and the
  comment of line 140 (prepend to first user message) is not carried out.
\<close>

theorem main_conversation_loses_system_prompt:
  "map req_messages
     (calls (fst (snd (call_llm_with_history keys_env b main_messages [0, 1, 2, 3]
        ''anthropic'' kw)))) =
   [[\<lparr>role = ''user'', content = ''What is Python?''\<rparr>,
     \<lparr>role = ''assistant'', content = ''Python is a high-level programming language.''\<rparr>,
     \<lparr>role = ''user'', content = ''What are its main uses?''\<rparr>]]"
  by (simp add: history_anthropic_request [where k = "''sk-2''"] lower_anthropic keys_env_def
      anthropic_translation_def main_messages_def)

text \<open>
  C2 does not hold of \<^verbatim>\<open>call_llm_with_history\<close>. For the provider \<^verbatim>\<open>gemini\<close> and a list of
  one message it logs one line and returns \<^verbatim>\<open>None\<close>: the \<^verbatim>\<open>if\<close>/\<^verbatim>\<open>elif\<close> of lines 112 and
  128 has no \<^verbatim>\<open>else\<close>. \<^verbatim>\<open>call_llm\<close> has it (line 70) and raises
  \<^verbatim>\<open>ValueError("Unsupported provider: gemini")\<close>. Neither sends a request.
\<close>

theorem history_unsupported_provider_returns_None:
  "call_llm_with_history env b h [m] ''gemini'' kw =
     (h, [LogInfo ''Calling gemini with 1 messages''], Inr None)
   \<and> call_llm env b prompt ''gemini'' model temperature max_tokens =
     ([LogInfo (''Calling gemini LLM with prompt length: '' @ str_nat (length prompt)),
       LogError ''Error calling gemini LLM: Unsupported provider: gemini''],
      Inl (ValueError ''Unsupported provider: gemini''))"
  by (simp add: call_llm_with_history_def call_llm_with_history_try_def call_llm_def
      call_llm_try_def lower_gemini str_nat_Suc_0)

text \<open>
  C6 does not hold of \<^verbatim>\<open>call_llm_with_history\<close>. With \<^verbatim>\<open>OPENAI_API_KEY\<close> set to the
  placeholder \<^verbatim>\<open>YOUR_API_KEY_HERE\<close> it sends a request with that key: line 114 tests only
  \<^verbatim>\<open>not api_key\<close>. \<^verbatim>\<open>call_llm\<close> tests the placeholder too (line 40) and raises
  \<^verbatim>\<open>ValueError\<close> without sending anything.
\<close>

theorem history_sends_placeholder_key:
  "map req_api_key
     (calls (fst (snd (call_llm_with_history placeholder_env b h [m] ''openai'' kw))))
     = [''YOUR_API_KEY_HERE'']
   \<and> call_llm placeholder_env b prompt ''openai'' model temperature max_tokens =
     ([LogInfo (''Calling openai LLM with prompt length: '' @ str_nat (length prompt)),
       GetEnv ''OPENAI_API_KEY'',
       LogError ''Error calling openai LLM: OPENAI_API_KEY not found in environment variables''],
      Inl (ValueError ''OPENAI_API_KEY not found in environment variables''))"
  by (simp add: history_openai_request [where k = "''YOUR_API_KEY_HERE''"] call_llm_def
      call_llm_try_def lower_openai placeholder_env_def)

end
